theory Spec2Isabelle
  imports Complex_Main "HOL-Library.Sublist"
begin

section \<open>The process environment and Python's string helpers\<close>

text \<open>
  \<^verbatim>\<open>llm_factory.py\<close> reads the process environment (filled by \<^verbatim>\<open>load_dotenv()\<close> when the
  module is imported) and never writes it. The environment is a finite dictionary from
  variable names to strings, passed to the model as an explicit argument.
\<close>

type_synonym environ = "string \<rightharpoonup> string"

text \<open>\<^verbatim>\<open>os.getenv(name)\<close>: the value, or \<^verbatim>\<open>None\<close> when the variable is not set.\<close>

definition getenv :: "environ \<Rightarrow> string \<Rightarrow> string option" where
  "getenv env name = env name"

text \<open>\<^verbatim>\<open>os.getenv(name, default)\<close>: the default replaces an unset variable only.\<close>

definition getenv_default :: "environ \<Rightarrow> string \<Rightarrow> string \<Rightarrow> string" where
  "getenv_default env name dflt = (case env name of None \<Rightarrow> dflt | Some v \<Rightarrow> v)"

text \<open>
  Python's truth value of an \<^verbatim>\<open>Optional[str]\<close>: \<^verbatim>\<open>None\<close> and the empty string are false,
  every other string is true.
\<close>

definition truthy :: "string option \<Rightarrow> bool" where
  "truthy v = (case v of None \<Rightarrow> False | Some s \<Rightarrow> s \<noteq> [])"

text \<open>
  \<^verbatim>\<open>a or b\<close>: the left operand when it is true, otherwise the right operand, which is
  evaluated only then (it is passed as a suspended computation).
\<close>

definition py_or :: "string option \<Rightarrow> (unit \<Rightarrow> string option) \<Rightarrow> string option" where
  "py_or a b = (if truthy a then a else b ())"

text \<open>\<^verbatim>\<open>sep.join(xs)\<close>.\<close>

fun join :: "string \<Rightarrow> string list \<Rightarrow> string" where
  "join sep [] = []"
| "join sep [x] = x"
| "join sep (x # y # ys) = x @ sep @ join sep (y # ys)"

text \<open>
  \<^verbatim>\<open>s.rstrip(chars)\<close>: the longest run of trailing characters that belong to \<^verbatim>\<open>chars\<close> is
  removed.
\<close>

definition rstrip :: "string \<Rightarrow> string \<Rightarrow> string" where
  "rstrip s chars = rev (dropWhile (\<lambda>c. c \<in> set chars) (rev s))"

section \<open>The factory\<close>

text \<open>
  The keyword arguments handed to \<^verbatim>\<open>AzureChatOpenAI(...)\<close>. The class belongs to an external
  library; the handle is modelled as the arguments it is constructed from. \<^verbatim>\<open>api_key\<close> and
  \<^verbatim>\<open>azure_deployment\<close> are passed as \<^verbatim>\<open>os.getenv\<close> returned them (\<^verbatim>\<open>Optional[str]\<close>),
  \<^verbatim>\<open>api_version\<close> and \<^verbatim>\<open>azure_endpoint\<close> are strings.
\<close>

record AzureChatOpenAI =
  api_key :: "string option"
  api_version :: string
  azure_endpoint :: string
  azure_deployment :: "string option"
  temperature :: real

text \<open>
  \<^verbatim>\<open>EnvironmentError(message)\<close> is what \<^verbatim>\<open>get_llm\<close> raises itself; \<^verbatim>\<open>AttributeError\<close> is
  what \<^verbatim>\<open>azure_endpoint.rstrip\<close> would raise on \<^verbatim>\<open>None\<close>.
\<close>

datatype error = EnvironmentError string | AttributeError

text \<open>\<^verbatim>\<open>class LLMFactory\<close>: its only attribute is \<^verbatim>\<open>self.llm\<close>, set to \<^verbatim>\<open>None\<close> by \<^verbatim>\<open>__init__\<close>.\<close>

record LLMFactory =
  llm :: "AzureChatOpenAI option"

definition init :: LLMFactory where
  "init = \<lparr>llm = None\<rparr>"

text \<open>The local variables of \<^verbatim>\<open>get_llm\<close> (lines 13 to 19), as functions of the environment.\<close>

definition env_api_key :: "environ \<Rightarrow> string option" where
  "env_api_key env = getenv env ''AZURE_OPENAI_KEY''"

definition env_api_version :: "environ \<Rightarrow> string" where
  "env_api_version env = getenv_default env ''AZURE_OPENAI_VERSION'' ''2024-02-15-preview''"

definition env_azure_endpoint :: "environ \<Rightarrow> string option" where
  "env_azure_endpoint env = getenv env ''AZURE_OPENAI_ENDPOINT''"

definition env_azure_deployment :: "environ \<Rightarrow> string option" where
  "env_azure_deployment env =
     py_or (getenv env ''AZURE_OPENAI_DEPLOYMENT_NAME'')
           (\<lambda>_. getenv env ''AZURE_OPENAI_DEPLOYMENT'')"

text \<open>The list \<^verbatim>\<open>missing\<close> after the three \<^verbatim>\<open>if not ...: missing.append(...)\<close> statements.\<close>

definition missing :: "environ \<Rightarrow> string list" where
  "missing env =
     (let m0 = [];
          m1 = (if \<not> truthy (env_api_key env) then m0 @ [''AZURE_OPENAI_KEY''] else m0);
          m2 = (if \<not> truthy (env_azure_endpoint env)
                then m1 @ [''AZURE_OPENAI_ENDPOINT''] else m1);
          m3 = (if \<not> truthy (env_azure_deployment env)
                then m2 @ [''AZURE_OPENAI_DEPLOYMENT_NAME''] else m2)
      in m3)"

text \<open>
  \<^verbatim>\<open>get_llm(self)\<close>. The method assigns neither \<^verbatim>\<open>self.llm\<close> nor the environment, so the
  model returns the outcome only: the raised error on the left, the constructed handle
  on the right.
\<close>

definition get_llm :: "LLMFactory \<Rightarrow> environ \<Rightarrow> error + AzureChatOpenAI" where
  "get_llm self env =
     (if missing env \<noteq> [] then
        Inl (EnvironmentError
               (''Missing required environment variables: '' @ join '', '' (missing env)))
      else
        (case env_azure_endpoint env of
           None \<Rightarrow> Inl AttributeError
         | Some e \<Rightarrow>
             Inr \<lparr>api_key = env_api_key env,
                  api_version = env_api_version env,
                  azure_endpoint = rstrip e ''/'',
                  azure_deployment = env_azure_deployment env,
                  temperature = 0\<rparr>))"

section \<open>The names and notions of the specification\<close>

abbreviation AZURE_OPENAI_KEY :: string where
  "AZURE_OPENAI_KEY \<equiv> ''AZURE_OPENAI_KEY''"

abbreviation AZURE_OPENAI_VERSION :: string where
  "AZURE_OPENAI_VERSION \<equiv> ''AZURE_OPENAI_VERSION''"

abbreviation AZURE_OPENAI_ENDPOINT :: string where
  "AZURE_OPENAI_ENDPOINT \<equiv> ''AZURE_OPENAI_ENDPOINT''"

abbreviation AZURE_OPENAI_DEPLOYMENT_NAME :: string where
  "AZURE_OPENAI_DEPLOYMENT_NAME \<equiv> ''AZURE_OPENAI_DEPLOYMENT_NAME''"

abbreviation AZURE_OPENAI_DEPLOYMENT :: string where
  "AZURE_OPENAI_DEPLOYMENT \<equiv> ''AZURE_OPENAI_DEPLOYMENT''"

text \<open>
  The specification's three required fields, each under the name the error message
  uses for it: the credential key, the endpoint URL and the deployment identifier.
\<close>

definition required_variables :: "string set" where
  "required_variables =
     {AZURE_OPENAI_KEY, AZURE_OPENAI_ENDPOINT, AZURE_OPENAI_DEPLOYMENT_NAME}"

text \<open>
  The specification's present required fields: a field is present when the environment
  gives it a non-empty value; the deployment identifier is present when the primary or
  the secondary deployment variable is non-empty.
\<close>

definition present_required :: "environ \<Rightarrow> string set" where
  "present_required env =
     (if truthy (env AZURE_OPENAI_KEY) then {AZURE_OPENAI_KEY} else {}) \<union>
     (if truthy (env AZURE_OPENAI_ENDPOINT) then {AZURE_OPENAI_ENDPOINT} else {}) \<union>
     (if truthy (env AZURE_OPENAI_DEPLOYMENT_NAME) \<or> truthy (env AZURE_OPENAI_DEPLOYMENT)
      then {AZURE_OPENAI_DEPLOYMENT_NAME} else {})"

text \<open>
  The specification's fallback resolution: an ordered list of candidate lookups, the
  first non-empty one wins.
\<close>

fun first_non_empty :: "string option list \<Rightarrow> string option" where
  "first_non_empty [] = None"
| "first_non_empty (v # vs) = (if truthy v then v else first_non_empty vs)"

section \<open>Sample environments\<close>

text \<open>Only the secondary deployment variable is set; the endpoint ends in a separator.\<close>

definition env_secondary_only :: environ where
  "env_secondary_only =
     [AZURE_OPENAI_KEY \<mapsto> ''secret'',
      AZURE_OPENAI_ENDPOINT \<mapsto> ''https://x.example.com/'',
      AZURE_OPENAI_DEPLOYMENT \<mapsto> ''gpt-4o'']"

text \<open>Only the primary deployment variable is set; the endpoint has no trailing separator.\<close>

definition env_primary_only :: environ where
  "env_primary_only =
     [AZURE_OPENAI_KEY \<mapsto> ''secret'',
      AZURE_OPENAI_ENDPOINT \<mapsto> ''https://x.example.com'',
      AZURE_OPENAI_DEPLOYMENT_NAME \<mapsto> ''gpt-4o-mini'']"

text \<open>Both deployment variables are set, to different values.\<close>

definition env_both_deployments :: environ where
  "env_both_deployments =
     [AZURE_OPENAI_KEY \<mapsto> ''secret'',
      AZURE_OPENAI_ENDPOINT \<mapsto> ''https://x.example.com'',
      AZURE_OPENAI_DEPLOYMENT_NAME \<mapsto> ''gpt-4o-mini'',
      AZURE_OPENAI_DEPLOYMENT \<mapsto> ''gpt-4o'']"

text \<open>The API version variable is set, to the empty string.\<close>

definition env_empty_version :: environ where
  "env_empty_version =
     [AZURE_OPENAI_KEY \<mapsto> ''secret'',
      AZURE_OPENAI_VERSION \<mapsto> [],
      AZURE_OPENAI_ENDPOINT \<mapsto> ''https://x.example.com'',
      AZURE_OPENAI_DEPLOYMENT_NAME \<mapsto> ''gpt-4o-mini'']"

text \<open>The API version variable is set, to a version of its own.\<close>

definition env_own_version :: environ where
  "env_own_version =
     [AZURE_OPENAI_KEY \<mapsto> ''secret'',
      AZURE_OPENAI_VERSION \<mapsto> ''2023-05-15'',
      AZURE_OPENAI_ENDPOINT \<mapsto> ''https://x.example.com//'',
      AZURE_OPENAI_DEPLOYMENT_NAME \<mapsto> ''gpt-4o-mini'']"

text \<open>The endpoint variable holds separators only.\<close>

definition env_slash_endpoint :: environ where
  "env_slash_endpoint =
     [AZURE_OPENAI_KEY \<mapsto> ''secret'',
      AZURE_OPENAI_ENDPOINT \<mapsto> ''//'',
      AZURE_OPENAI_DEPLOYMENT_NAME \<mapsto> ''gpt-4o-mini'']"

text \<open>The credential key is set but empty, and no deployment variable is set.\<close>

definition env_key_empty :: environ where
  "env_key_empty =
     [AZURE_OPENAI_KEY \<mapsto> [],
      AZURE_OPENAI_ENDPOINT \<mapsto> ''https://x.example.com'']"

section \<open>Facts about the helpers\<close>

lemmas get_llm_unfold =
  get_llm_def missing_def env_api_key_def env_api_version_def env_azure_endpoint_def
  env_azure_deployment_def getenv_def getenv_default_def truthy_def py_or_def rstrip_def

lemma truthy_Some_iff: "truthy v \<longleftrightarrow> (\<exists>s. v = Some s \<and> s \<noteq> [])"
  by (cases v) (simp_all add: truthy_def)

lemma env_azure_deployment_eq:
  "env_azure_deployment env =
     (if truthy (env AZURE_OPENAI_DEPLOYMENT_NAME) then env AZURE_OPENAI_DEPLOYMENT_NAME
      else env AZURE_OPENAI_DEPLOYMENT)"
  by (simp add: env_azure_deployment_def py_or_def getenv_def)

lemma truthy_env_azure_deployment:
  "truthy (env_azure_deployment env) \<longleftrightarrow>
     truthy (env AZURE_OPENAI_DEPLOYMENT_NAME) \<or> truthy (env AZURE_OPENAI_DEPLOYMENT)"
  by (simp add: env_azure_deployment_eq)

lemma missing_Nil_iff:
  "missing env = [] \<longleftrightarrow>
     truthy (env_api_key env) \<and> truthy (env_azure_endpoint env) \<and>
     truthy (env_azure_deployment env)"
  by (simp add: missing_def)

lemma missing_eq:
  "missing env =
     (if truthy (env AZURE_OPENAI_KEY) then [] else [AZURE_OPENAI_KEY]) @
     (if truthy (env AZURE_OPENAI_ENDPOINT) then [] else [AZURE_OPENAI_ENDPOINT]) @
     (if truthy (env AZURE_OPENAI_DEPLOYMENT_NAME) \<or> truthy (env AZURE_OPENAI_DEPLOYMENT)
      then [] else [AZURE_OPENAI_DEPLOYMENT_NAME])"
  by (simp add: missing_def truthy_env_azure_deployment env_api_key_def
      env_azure_endpoint_def getenv_def)

lemma get_llm_raises:
  "missing env \<noteq> [] \<Longrightarrow>
     get_llm self env =
       Inl (EnvironmentError
              (''Missing required environment variables: '' @ join '', '' (missing env)))"
  by (simp add: get_llm_def)

lemma get_llm_returns:
  assumes "missing env = []"
  shows "\<exists>e. env AZURE_OPENAI_ENDPOINT = Some e \<and> e \<noteq> [] \<and>
           get_llm self env =
             Inr \<lparr>api_key = env_api_key env, api_version = env_api_version env,
                  azure_endpoint = rstrip e ''/'',
                  azure_deployment = env_azure_deployment env, temperature = 0\<rparr>"
proof -
  from assms have "truthy (env_azure_endpoint env)"
    by (simp add: missing_Nil_iff)
  then obtain e where e: "env AZURE_OPENAI_ENDPOINT = Some e" "e \<noteq> []"
    by (auto simp: truthy_Some_iff env_azure_endpoint_def getenv_def)
  with assms show ?thesis
    by (simp add: get_llm_def env_azure_endpoint_def getenv_def)
qed

lemma get_llm_Inr_missing: "get_llm self env = Inr h \<Longrightarrow> missing env = []"
  by (cases "missing env = []") (simp_all add: get_llm_def)

lemma takeWhile_eq_replicate:
  "takeWhile (\<lambda>x. x = c) xs = replicate (length (takeWhile (\<lambda>x. x = c) xs)) c"
  by (induction xs) simp_all

lemma rstrip_decompose: "\<exists>n. s = rstrip s [c] @ replicate n c"
proof -
  define n where "n = length (takeWhile (\<lambda>x. x = c) (rev s))"
  have "rev s = takeWhile (\<lambda>x. x = c) (rev s) @ dropWhile (\<lambda>x. x = c) (rev s)"
    by simp
  also have "takeWhile (\<lambda>x. x = c) (rev s) = replicate n c"
    unfolding n_def by (rule takeWhile_eq_replicate)
  finally have "rev (rev s) = rev (replicate n c @ dropWhile (\<lambda>x. x = c) (rev s))"
    by (rule arg_cong)
  then have "s = rstrip s [c] @ replicate n c"
    by (simp add: rstrip_def)
  then show ?thesis ..
qed

lemma rstrip_no_trailing: "rstrip s [c] = [] \<or> last (rstrip s [c]) \<noteq> c"
proof (cases "dropWhile (\<lambda>x. x = c) (rev s)")
  case Nil
  then show ?thesis by (simp add: rstrip_def)
next
  case (Cons y ys)
  with hd_dropWhile [of "\<lambda>x. x = c" "rev s"] have "y \<noteq> c"
    by simp
  with Cons show ?thesis by (simp add: rstrip_def)
qed

lemma rstrip_unchanged: "s = [] \<or> last s \<noteq> c \<Longrightarrow> rstrip s [c] = s"
  by (cases s rule: rev_cases) (simp_all add: rstrip_def)

lemma rstrip_Nil_iff: "rstrip s [c] = [] \<longleftrightarrow> set s \<subseteq> {c}"
  by (auto simp: rstrip_def dropWhile_eq_Nil_conv)

lemma sublist_join: "x \<in> set xs \<Longrightarrow> sublist x (join sep xs)"
proof (induction sep xs rule: join.induct)
  case (1 sep)
  then show ?case by simp
next
  case (2 sep y)
  then show ?case by simp
next
  case (3 sep y z zs)
  show ?case
  proof (cases "x = y")
    case True
    then show ?thesis by simp
  next
    case False
    with 3 have "sublist x (join sep (z # zs))" by simp
    then obtain ps ss where "join sep (z # zs) = ps @ x @ ss"
      unfolding sublist_def by blast
    then have "join sep (y # z # zs) = (y @ sep @ ps) @ x @ ss"
      by simp
    then show ?thesis
      by (simp only: sublist_appendI)
  qed
qed

section \<open>Validation of the required fields\<close>

text \<open>
  Claim C1. For every environment, \<open>get_llm\<close> raises if and only if at least one of the
  three required fields (credential key, endpoint URL, deployment identifier) is absent
  or empty; what it raises is the \<open>EnvironmentError\<close> whose message lists the names in
  \<open>missing\<close>, and the set of those names is the set of required fields minus the set of
  present ones. When neither deployment variable is set, the deployment identifier is
  among the reported names.
\<close>

theorem get_llm_missing_fields:
  "(isl (get_llm self env) \<longleftrightarrow> required_variables - present_required env \<noteq> {}) \<and>
   (\<forall>e. get_llm self env = Inl e \<longrightarrow>
      e = EnvironmentError
            (''Missing required environment variables: '' @ join '', '' (missing env))) \<and>
   set (missing env) = required_variables - present_required env \<and>
   (env AZURE_OPENAI_DEPLOYMENT_NAME = None \<and> env AZURE_OPENAI_DEPLOYMENT = None \<longrightarrow>
      AZURE_OPENAI_DEPLOYMENT_NAME \<in> set (missing env) \<and> isl (get_llm self env))"
proof -
  have set_eq: "set (missing env) = required_variables - present_required env"
    by (auto simp: missing_eq required_variables_def present_required_def)
  have isl_iff: "isl (get_llm self env) \<longleftrightarrow> missing env \<noteq> []"
  proof (cases "missing env = []")
    case True
    from get_llm_returns [OF True, of self] show ?thesis
      using True by auto
  next
    case False
    then show ?thesis by (simp add: get_llm_raises)
  qed
  have msg: "e = EnvironmentError
            (''Missing required environment variables: '' @ join '', '' (missing env))"
    if "get_llm self env = Inl e" for e
  proof (cases "missing env = []")
    case True
    from get_llm_returns [OF True, of self] that show ?thesis by auto
  next
    case False
    with that show ?thesis by (simp add: get_llm_raises)
  qed
  have dep: "AZURE_OPENAI_DEPLOYMENT_NAME \<in> set (missing env)"
    if "env AZURE_OPENAI_DEPLOYMENT_NAME = None" "env AZURE_OPENAI_DEPLOYMENT = None"
    using that by (simp add: missing_eq truthy_def)
  have "isl (get_llm self env) \<longleftrightarrow> required_variables - present_required env \<noteq> {}"
    using isl_iff set_eq by (metis set_empty)
  moreover have "isl (get_llm self env)"
    if "env AZURE_OPENAI_DEPLOYMENT_NAME = None" "env AZURE_OPENAI_DEPLOYMENT = None"
    using dep [OF that] isl_iff by auto
  ultimately show ?thesis
    using msg set_eq dep by blast
qed

text \<open>The theorem at the empty environment: all three fields are reported.\<close>

theorem get_llm_missing_fields_witness:
  "isl (get_llm init Map.empty) \<and>
   get_llm init Map.empty =
     Inl (EnvironmentError
       ''Missing required environment variables: AZURE_OPENAI_KEY, AZURE_OPENAI_ENDPOINT, AZURE_OPENAI_DEPLOYMENT_NAME'') \<and>
   set (missing Map.empty) = required_variables - present_required Map.empty \<and>
   required_variables - present_required Map.empty =
     {AZURE_OPENAI_KEY, AZURE_OPENAI_ENDPOINT, AZURE_OPENAI_DEPLOYMENT_NAME} \<and>
   AZURE_OPENAI_DEPLOYMENT_NAME \<in> set (missing Map.empty)"
proof -
  have m: "missing Map.empty =
      [AZURE_OPENAI_KEY, AZURE_OPENAI_ENDPOINT, AZURE_OPENAI_DEPLOYMENT_NAME]"
    by (simp add: missing_eq truthy_def)
  have r: "required_variables - present_required Map.empty =
     {AZURE_OPENAI_KEY, AZURE_OPENAI_ENDPOINT, AZURE_OPENAI_DEPLOYMENT_NAME}"
    by (simp add: required_variables_def present_required_def truthy_def)
  have i: "isl (get_llm init Map.empty)"
    using get_llm_missing_fields [of init Map.empty] r by simp
  then obtain e where e: "get_llm init Map.empty = Inl e"
    by (cases "get_llm init Map.empty") simp_all
  with get_llm_missing_fields [of init Map.empty]
  have "get_llm init Map.empty = Inl (EnvironmentError
            (''Missing required environment variables: '' @ join '', '' (missing Map.empty)))"
    by simp
  then have "get_llm init Map.empty =
     Inl (EnvironmentError
       ''Missing required environment variables: AZURE_OPENAI_KEY, AZURE_OPENAI_ENDPOINT, AZURE_OPENAI_DEPLOYMENT_NAME'')"
    by (simp add: m)
  with i r show ?thesis
    using get_llm_missing_fields [of init Map.empty] by simp
qed

section \<open>Resolution of the deployment identifier\<close>

text \<open>
  Claim C2. The deployment identifier is the first non-empty value among
  \<open>AZURE_OPENAI_DEPLOYMENT_NAME\<close> and \<open>AZURE_OPENAI_DEPLOYMENT\<close>, in that order: when one of
  them is non-empty the resolved value is that first non-empty value, and when none is
  the resolved value is not a non-empty string. The lookup short-circuits: once the
  primary variable is non-empty, the value of the secondary one has no influence. When
  the primary variable is not set and the secondary one is non-empty, the secondary
  value is the identifier and the deployment field is not reported missing; every
  handle that is returned carries the first non-empty value.
\<close>

theorem deployment_first_non_empty:
  "(\<forall>s. first_non_empty [env AZURE_OPENAI_DEPLOYMENT_NAME, env AZURE_OPENAI_DEPLOYMENT] = Some s
        \<longrightarrow> env_azure_deployment env = Some s \<and> s \<noteq> []) \<and>
   (first_non_empty [env AZURE_OPENAI_DEPLOYMENT_NAME, env AZURE_OPENAI_DEPLOYMENT] = None
        \<longrightarrow> \<not> truthy (env_azure_deployment env)) \<and>
   (truthy (env AZURE_OPENAI_DEPLOYMENT_NAME) \<longrightarrow>
      env_azure_deployment (env(AZURE_OPENAI_DEPLOYMENT := v)) = env_azure_deployment env) \<and>
   (\<forall>s. env AZURE_OPENAI_DEPLOYMENT_NAME = None \<and>
        env AZURE_OPENAI_DEPLOYMENT = Some s \<and> s \<noteq> [] \<longrightarrow>
        env_azure_deployment env = Some s \<and>
        AZURE_OPENAI_DEPLOYMENT_NAME \<notin> set (missing env)) \<and>
   (\<forall>h. get_llm self env = Inr h \<longrightarrow>
        azure_deployment h =
          first_non_empty [env AZURE_OPENAI_DEPLOYMENT_NAME, env AZURE_OPENAI_DEPLOYMENT])"
proof -
  let ?p = "env AZURE_OPENAI_DEPLOYMENT_NAME" and ?s = "env AZURE_OPENAI_DEPLOYMENT"
  have fne: "first_non_empty [?p, ?s] =
      (if truthy ?p then ?p else if truthy ?s then ?s else None)"
    by simp
  have c1: "\<forall>s. first_non_empty [?p, ?s] = Some s \<longrightarrow>
      env_azure_deployment env = Some s \<and> s \<noteq> []"
    unfolding fne env_azure_deployment_eq
    by (cases "truthy ?p"; cases "truthy ?s") (auto simp: truthy_Some_iff)
  have c2: "first_non_empty [?p, ?s] = None \<longrightarrow> \<not> truthy (env_azure_deployment env)"
    unfolding fne env_azure_deployment_eq
    by (cases "truthy ?p"; cases "truthy ?s") (auto simp: truthy_Some_iff)
  have c3: "truthy ?p \<longrightarrow>
      env_azure_deployment (env(AZURE_OPENAI_DEPLOYMENT := v)) = env_azure_deployment env"
    by (simp add: env_azure_deployment_eq)
  have c4: "\<forall>s. ?p = None \<and> ?s = Some s \<and> s \<noteq> [] \<longrightarrow>
      env_azure_deployment env = Some s \<and>
      AZURE_OPENAI_DEPLOYMENT_NAME \<notin> set (missing env)"
    by (simp add: env_azure_deployment_eq missing_eq truthy_def)
  have c5: "\<forall>h. get_llm self env = Inr h \<longrightarrow> azure_deployment h = first_non_empty [?p, ?s]"
  proof (intro allI impI)
    fix h
    assume g: "get_llm self env = Inr h"
    then have m: "missing env = []"
      by (rule get_llm_Inr_missing)
    then have t: "truthy (env_azure_deployment env)"
      by (simp add: missing_Nil_iff)
    from get_llm_returns [OF m, of self] g
    have "azure_deployment h = env_azure_deployment env"
      by auto
    also from t have "\<dots> = first_non_empty [?p, ?s]"
      unfolding fne env_azure_deployment_eq
      by (cases "truthy ?p"; cases "truthy ?s") simp_all
    finally show "azure_deployment h = first_non_empty [?p, ?s]" .
  qed
  show ?thesis
    by (rule conjI [OF c1 conjI [OF c2 conjI [OF c3 conjI [OF c4 c5]]]])
qed

text \<open>The theorem where only the secondary variable is set.\<close>

theorem deployment_first_non_empty_witness:
  "env_secondary_only AZURE_OPENAI_DEPLOYMENT_NAME = None \<and>
   env_secondary_only AZURE_OPENAI_DEPLOYMENT = Some ''gpt-4o'' \<and>
   env_azure_deployment env_secondary_only = Some ''gpt-4o'' \<and>
   AZURE_OPENAI_DEPLOYMENT_NAME \<notin> set (missing env_secondary_only) \<and>
   get_llm init env_secondary_only =
     Inr \<lparr>api_key = Some ''secret'', api_version = ''2024-02-15-preview'',
          azure_endpoint = ''https://x.example.com'', azure_deployment = Some ''gpt-4o'',
          temperature = 0\<rparr> \<and>
   first_non_empty [env_secondary_only AZURE_OPENAI_DEPLOYMENT_NAME,
                    env_secondary_only AZURE_OPENAI_DEPLOYMENT] = Some ''gpt-4o''"
proof -
  note th = deployment_first_non_empty [of env_secondary_only None init]
  have p: "env_secondary_only AZURE_OPENAI_DEPLOYMENT_NAME = None"
    by (simp add: env_secondary_only_def)
  have s: "env_secondary_only AZURE_OPENAI_DEPLOYMENT = Some ''gpt-4o''"
    by (simp add: env_secondary_only_def)
  have n: "''gpt-4o'' \<noteq> []"
    by simp
  have g: "get_llm init env_secondary_only =
     Inr \<lparr>api_key = Some ''secret'', api_version = ''2024-02-15-preview'',
          azure_endpoint = ''https://x.example.com'', azure_deployment = Some ''gpt-4o'',
          temperature = 0\<rparr>"
    by (simp add: get_llm_unfold env_secondary_only_def)
  from th have "\<forall>s. env_secondary_only AZURE_OPENAI_DEPLOYMENT_NAME = None \<and>
        env_secondary_only AZURE_OPENAI_DEPLOYMENT = Some s \<and> s \<noteq> [] \<longrightarrow>
        env_azure_deployment env_secondary_only = Some s \<and>
        AZURE_OPENAI_DEPLOYMENT_NAME \<notin> set (missing env_secondary_only)"
    by (rule conjunct2 [THEN conjunct2, THEN conjunct2, THEN conjunct1])
  with p s n have r: "env_azure_deployment env_secondary_only = Some ''gpt-4o'' \<and>
        AZURE_OPENAI_DEPLOYMENT_NAME \<notin> set (missing env_secondary_only)"
    by blast
  from th have "\<forall>h. get_llm init env_secondary_only = Inr h \<longrightarrow>
        azure_deployment h =
          first_non_empty [env_secondary_only AZURE_OPENAI_DEPLOYMENT_NAME,
                           env_secondary_only AZURE_OPENAI_DEPLOYMENT]"
    by (rule conjunct2 [THEN conjunct2, THEN conjunct2, THEN conjunct2])
  with g have f: "first_non_empty [env_secondary_only AZURE_OPENAI_DEPLOYMENT_NAME,
                    env_secondary_only AZURE_OPENAI_DEPLOYMENT] = Some ''gpt-4o''"
    by fastforce
  from p s r g f show ?thesis
    by (intro conjI) (erule conjunct1 conjunct2 | assumption)+
qed

text \<open>
  Claim C3 says that whenever \<open>get_llm\<close> succeeds, exactly one of the two deployment
  variables has a non-empty value. With both variables set, \<open>get_llm\<close> succeeds, takes
  the primary value, and both variables are non-empty.
\<close>

theorem both_deployments_counterexample:
  "get_llm init env_both_deployments =
     Inr \<lparr>api_key = Some ''secret'', api_version = ''2024-02-15-preview'',
          azure_endpoint = ''https://x.example.com'',
          azure_deployment = Some ''gpt-4o-mini'', temperature = 0\<rparr> \<and>
   truthy (env_both_deployments AZURE_OPENAI_DEPLOYMENT_NAME) \<and>
   truthy (env_both_deployments AZURE_OPENAI_DEPLOYMENT)"
  by (simp add: get_llm_unfold env_both_deployments_def)

text \<open>
  Claim C3, amended. Whenever \<open>get_llm\<close> succeeds, at least one of the two deployment
  variables has a non-empty value, and the identifier of the handle is non-empty: the
  primary value when that is non-empty, the secondary value otherwise.
\<close>

theorem success_some_deployment:
  assumes "get_llm self env = Inr h"
  shows "(truthy (env AZURE_OPENAI_DEPLOYMENT_NAME) \<or> truthy (env AZURE_OPENAI_DEPLOYMENT)) \<and>
         truthy (azure_deployment h) \<and>
         azure_deployment h =
           (if truthy (env AZURE_OPENAI_DEPLOYMENT_NAME) then env AZURE_OPENAI_DEPLOYMENT_NAME
            else env AZURE_OPENAI_DEPLOYMENT)"
proof -
  from assms have m: "missing env = []"
    by (rule get_llm_Inr_missing)
  then have t: "truthy (env_azure_deployment env)"
    by (simp add: missing_Nil_iff)
  from get_llm_returns [OF m, of self] assms
  have eq: "azure_deployment h = env_azure_deployment env"
    by auto
  from t have d: "truthy (env AZURE_OPENAI_DEPLOYMENT_NAME) \<or> truthy (env AZURE_OPENAI_DEPLOYMENT)"
    by (simp only: truthy_env_azure_deployment)
  from t eq have th: "truthy (azure_deployment h)"
    by simp
  from eq have "azure_deployment h =
      (if truthy (env AZURE_OPENAI_DEPLOYMENT_NAME) then env AZURE_OPENAI_DEPLOYMENT_NAME
       else env AZURE_OPENAI_DEPLOYMENT)"
    by (simp only: env_azure_deployment_eq)
  with d th show ?thesis
    by (intro conjI)
qed

text \<open>The amended statement with both variables set: the primary value is taken.\<close>

theorem success_some_deployment_witness:
  "get_llm init env_both_deployments =
     Inr \<lparr>api_key = Some ''secret'', api_version = ''2024-02-15-preview'',
          azure_endpoint = ''https://x.example.com'',
          azure_deployment = Some ''gpt-4o-mini'', temperature = 0\<rparr> \<and>
   truthy (Some ''gpt-4o-mini'') \<and>
   Some ''gpt-4o-mini'' = env_both_deployments AZURE_OPENAI_DEPLOYMENT_NAME"
proof -
  have g: "get_llm init env_both_deployments =
     Inr \<lparr>api_key = Some ''secret'', api_version = ''2024-02-15-preview'',
          azure_endpoint = ''https://x.example.com'',
          azure_deployment = Some ''gpt-4o-mini'', temperature = 0\<rparr>"
    by (simp add: get_llm_unfold env_both_deployments_def)
  have t: "truthy (env_both_deployments AZURE_OPENAI_DEPLOYMENT_NAME)"
    by (simp add: env_both_deployments_def truthy_def)
  from success_some_deployment [OF g] have "truthy (Some ''gpt-4o-mini'') \<and>
      Some ''gpt-4o-mini'' = env_both_deployments AZURE_OPENAI_DEPLOYMENT_NAME"
    using t by simp
  with g show ?thesis
    by (rule conjI)
qed

lemma rstrip_not_suffix: "\<not> suffix [c] (rstrip s [c])"
proof
  assume "suffix [c] (rstrip s [c])"
  then obtain ys where "rstrip s [c] = ys @ [c]"
    by (auto simp: suffix_def)
  then have "rstrip s [c] \<noteq> [] \<and> last (rstrip s [c]) = c"
    by simp
  with rstrip_no_trailing [of s c] show False
    by blast
qed

text \<open>
  An endpoint variable that holds separators only passes the validation, which looks at
  the value before it is normalised, and reaches the constructor as the empty string.
\<close>

lemma get_llm_slash_endpoint:
  "get_llm init env_slash_endpoint =
     Inr \<lparr>api_key = Some ''secret'', api_version = ''2024-02-15-preview'',
          azure_endpoint = [], azure_deployment = Some ''gpt-4o-mini'', temperature = 0\<rparr>"
  by (simp add: get_llm_unfold env_slash_endpoint_def)

section \<open>Normalisation of the endpoint\<close>

text \<open>
  Claim C4. For every non-empty endpoint value (the other required fields being
  present, so that a client is constructed), the endpoint passed to the constructor is
  the value of \<open>AZURE_OPENAI_ENDPOINT\<close> with all its trailing \<open>/\<close> characters removed: the
  input is the passed value followed by separators only, the passed value does not end
  in a separator, and an input that does not end in a separator is passed unchanged.
\<close>

theorem endpoint_trailing_separators_removed:
  assumes "env AZURE_OPENAI_ENDPOINT = Some e" and "e \<noteq> []"
    and "truthy (env AZURE_OPENAI_KEY)"
    and "truthy (env AZURE_OPENAI_DEPLOYMENT_NAME) \<or> truthy (env AZURE_OPENAI_DEPLOYMENT)"
  shows "\<exists>h. get_llm self env = Inr h \<and>
           azure_endpoint h = rstrip e ''/'' \<and>
           (\<exists>n. e = azure_endpoint h @ replicate n CHR ''/'') \<and>
           \<not> suffix ''/'' (azure_endpoint h) \<and>
           (\<not> suffix ''/'' e \<longrightarrow> azure_endpoint h = e)"
proof -
  from assms have "missing env = []"
    by (simp add: missing_eq truthy_def)
  from get_llm_returns [OF this, of self] assms(1)
  obtain h where h: "get_llm self env = Inr h" "azure_endpoint h = rstrip e ''/''"
    by auto
  have "\<exists>n. e = rstrip e ''/'' @ replicate n CHR ''/''"
    by (rule rstrip_decompose)
  moreover have "\<not> suffix ''/'' (rstrip e ''/'')"
    by (rule rstrip_not_suffix)
  moreover have "rstrip e ''/'' = e" if "\<not> suffix ''/'' e"
  proof (rule rstrip_unchanged)
    from that show "e = [] \<or> last e \<noteq> CHR ''/''"
      by (cases e rule: rev_cases) simp_all
  qed
  ultimately show ?thesis
    using h by simp
qed

text \<open>
  The theorem at the specification's two examples: \<open>https://x.example.com/\<close> loses its
  separator, \<open>https://x.example.com\<close> is passed as it is.
\<close>

theorem endpoint_trailing_separators_removed_witness:
  "env_secondary_only AZURE_OPENAI_ENDPOINT = Some ''https://x.example.com/'' \<and>
   (\<exists>h. get_llm init env_secondary_only = Inr h \<and>
        azure_endpoint h = ''https://x.example.com'') \<and>
   env_primary_only AZURE_OPENAI_ENDPOINT = Some ''https://x.example.com'' \<and>
   (\<exists>h. get_llm init env_primary_only = Inr h \<and>
        azure_endpoint h = ''https://x.example.com'')"
proof -
  have e1: "env_secondary_only AZURE_OPENAI_ENDPOINT = Some ''https://x.example.com/''"
    by (simp add: env_secondary_only_def)
  have k1: "truthy (env_secondary_only AZURE_OPENAI_KEY)"
    by (simp add: env_secondary_only_def truthy_def)
  have d1: "truthy (env_secondary_only AZURE_OPENAI_DEPLOYMENT_NAME) \<or>
            truthy (env_secondary_only AZURE_OPENAI_DEPLOYMENT)"
    by (simp add: env_secondary_only_def truthy_def)
  have r1: "rstrip ''https://x.example.com/'' ''/'' = ''https://x.example.com''"
    by (simp add: rstrip_def)
  have e2: "env_primary_only AZURE_OPENAI_ENDPOINT = Some ''https://x.example.com''"
    by (simp add: env_primary_only_def)
  have k2: "truthy (env_primary_only AZURE_OPENAI_KEY)"
    by (simp add: env_primary_only_def truthy_def)
  have d2: "truthy (env_primary_only AZURE_OPENAI_DEPLOYMENT_NAME) \<or>
            truthy (env_primary_only AZURE_OPENAI_DEPLOYMENT)"
    by (simp add: env_primary_only_def truthy_def)
  have n2: "\<not> suffix ''/'' ''https://x.example.com''"
    by (simp add: suffix_def)
  from endpoint_trailing_separators_removed [OF e1 _ k1 d1, of init]
  have w1: "\<exists>h. get_llm init env_secondary_only = Inr h \<and>
        azure_endpoint h = ''https://x.example.com''"
    unfolding r1 by blast
  from endpoint_trailing_separators_removed [OF e2 _ k2 d2, of init] n2
  have w2: "\<exists>h. get_llm init env_primary_only = Inr h \<and>
        azure_endpoint h = ''https://x.example.com''"
    by blast
  from e1 w1 e2 w2 show ?thesis
    by (intro conjI)
qed

section \<open>The values passed to the constructor\<close>

text \<open>
  Claim C5 says that whenever \<open>get_llm\<close> succeeds all four values passed to the
  constructor are non-empty. With \<open>AZURE_OPENAI_VERSION\<close> set to the empty string,
  \<open>get_llm\<close> succeeds and passes the empty string as the API version.
\<close>

theorem empty_version_counterexample:
  "get_llm init env_empty_version =
     Inr \<lparr>api_key = Some ''secret'', api_version = [],
          azure_endpoint = ''https://x.example.com'',
          azure_deployment = Some ''gpt-4o-mini'', temperature = 0\<rparr>"
  by (simp add: get_llm_unfold env_empty_version_def)

text \<open>
  Claim C5, amended. Whenever \<open>get_llm\<close> succeeds, the credential key and the
  deployment identifier passed to the constructor are non-empty strings and the
  endpoint passed does not end in a path separator; the API version is non-empty when
  \<open>AZURE_OPENAI_VERSION\<close> is not set or set to a non-empty value; the endpoint is
  non-empty when the endpoint variable holds a character other than the separator.
\<close>

theorem success_values_non_empty:
  assumes "get_llm self env = Inr h"
  shows "(\<exists>k. api_key h = Some k \<and> k \<noteq> []) \<and>
         (\<exists>d. azure_deployment h = Some d \<and> d \<noteq> []) \<and>
         \<not> suffix ''/'' (azure_endpoint h) \<and>
         (env AZURE_OPENAI_VERSION = None \<longrightarrow> api_version h \<noteq> []) \<and>
         (\<forall>v. env AZURE_OPENAI_VERSION = Some v \<and> v \<noteq> [] \<longrightarrow> api_version h \<noteq> []) \<and>
         (\<forall>e. env AZURE_OPENAI_ENDPOINT = Some e \<and> \<not> set e \<subseteq> {CHR ''/''} \<longrightarrow>
              azure_endpoint h \<noteq> [])"
proof -
  from assms have m: "missing env = []"
    by (rule get_llm_Inr_missing)
  from get_llm_returns [OF m, of self] assms
  obtain e where e: "env AZURE_OPENAI_ENDPOINT = Some e"
    and h: "h = \<lparr>api_key = env_api_key env, api_version = env_api_version env,
                  azure_endpoint = rstrip e ''/'',
                  azure_deployment = env_azure_deployment env, temperature = 0\<rparr>"
    by auto
  from m have "truthy (env_api_key env)" and "truthy (env_azure_deployment env)"
    by (simp_all add: missing_Nil_iff)
  with h have c1: "\<exists>k. api_key h = Some k \<and> k \<noteq> []"
    and c2: "\<exists>d. azure_deployment h = Some d \<and> d \<noteq> []"
    by (simp_all add: truthy_Some_iff)
  from h have c3: "\<not> suffix ''/'' (azure_endpoint h)"
    by (simp add: rstrip_not_suffix)
  from h have c4: "env AZURE_OPENAI_VERSION = None \<longrightarrow> api_version h \<noteq> []"
    by (simp add: env_api_version_def getenv_default_def)
  from h have c5: "\<forall>v. env AZURE_OPENAI_VERSION = Some v \<and> v \<noteq> [] \<longrightarrow> api_version h \<noteq> []"
    by (simp add: env_api_version_def getenv_default_def)
  from h e have c6: "\<forall>e. env AZURE_OPENAI_ENDPOINT = Some e \<and> \<not> set e \<subseteq> {CHR ''/''} \<longrightarrow>
              azure_endpoint h \<noteq> []"
    by (simp add: rstrip_Nil_iff)
  show ?thesis
    by (rule conjI [OF c1 conjI [OF c2 conjI [OF c3 conjI [OF c4 conjI [OF c5 c6]]]]])
qed

text \<open>The amended statement at two environments: version not set, version set.\<close>

theorem success_values_non_empty_witness:
  "get_llm init env_primary_only =
     Inr \<lparr>api_key = Some ''secret'', api_version = ''2024-02-15-preview'',
          azure_endpoint = ''https://x.example.com'',
          azure_deployment = Some ''gpt-4o-mini'', temperature = 0\<rparr> \<and>
   env_primary_only AZURE_OPENAI_VERSION = None \<and>
   get_llm init env_own_version =
     Inr \<lparr>api_key = Some ''secret'', api_version = ''2023-05-15'',
          azure_endpoint = ''https://x.example.com'',
          azure_deployment = Some ''gpt-4o-mini'', temperature = 0\<rparr> \<and>
   env_own_version AZURE_OPENAI_VERSION = Some ''2023-05-15'' \<and>
   env_own_version AZURE_OPENAI_ENDPOINT = Some ''https://x.example.com//'' \<and>
   \<not> set ''https://x.example.com//'' \<subseteq> {CHR ''/''}"
proof -
  have g1: "get_llm init env_primary_only =
     Inr \<lparr>api_key = Some ''secret'', api_version = ''2024-02-15-preview'',
          azure_endpoint = ''https://x.example.com'',
          azure_deployment = Some ''gpt-4o-mini'', temperature = 0\<rparr>"
    by (simp add: get_llm_unfold env_primary_only_def)
  have v1: "env_primary_only AZURE_OPENAI_VERSION = None"
    by (simp add: env_primary_only_def)
  have g2: "get_llm init env_own_version =
     Inr \<lparr>api_key = Some ''secret'', api_version = ''2023-05-15'',
          azure_endpoint = ''https://x.example.com'',
          azure_deployment = Some ''gpt-4o-mini'', temperature = 0\<rparr>"
    by (simp add: get_llm_unfold env_own_version_def)
  have v2: "env_own_version AZURE_OPENAI_VERSION = Some ''2023-05-15''"
    by (simp add: env_own_version_def)
  have e2: "env_own_version AZURE_OPENAI_ENDPOINT = Some ''https://x.example.com//''"
    by (simp add: env_own_version_def)
  have s2: "\<not> set ''https://x.example.com//'' \<subseteq> {CHR ''/''}"
    by simp
  note t1 = success_values_non_empty [OF g1]
  note t2 = success_values_non_empty [OF g2]
  from t1 v1 have "api_version \<lparr>api_key = Some ''secret'', api_version = ''2024-02-15-preview'',
          azure_endpoint = ''https://x.example.com'',
          azure_deployment = Some ''gpt-4o-mini'', temperature = 0\<rparr> \<noteq> []"
    by blast
  moreover from t2 e2 s2 have "azure_endpoint \<lparr>api_key = Some ''secret'', api_version = ''2023-05-15'',
          azure_endpoint = ''https://x.example.com'',
          azure_deployment = Some ''gpt-4o-mini'', temperature = 0\<rparr> \<noteq> []"
    by blast
  ultimately show ?thesis
    using g1 v1 g2 v2 e2 s2 by (intro conjI)
qed

section \<open>The API version\<close>

text \<open>
  Claim C6. Whenever \<open>get_llm\<close> succeeds, the API version passed to the constructor is
  the fixed string \<open>2024-02-15-preview\<close> when \<open>AZURE_OPENAI_VERSION\<close> is not set, and the
  value of the variable, whatever it is (the empty string too), when it is set.
\<close>

theorem api_version_default_or_literal:
  assumes "get_llm self env = Inr h"
  shows "(env AZURE_OPENAI_VERSION = None \<longrightarrow> api_version h = ''2024-02-15-preview'') \<and>
         (\<forall>v. env AZURE_OPENAI_VERSION = Some v \<longrightarrow> api_version h = v)"
proof -
  from assms have m: "missing env = []"
    by (rule get_llm_Inr_missing)
  from get_llm_returns [OF m, of self] assms
  have "api_version h = env_api_version env"
    by auto
  then show ?thesis
    by (simp add: env_api_version_def getenv_default_def)
qed

text \<open>The theorem with the variable not set, and with the variable set to the empty string.\<close>

theorem api_version_default_or_literal_witness:
  "env_secondary_only AZURE_OPENAI_VERSION = None \<and>
   get_llm init env_secondary_only =
     Inr \<lparr>api_key = Some ''secret'', api_version = ''2024-02-15-preview'',
          azure_endpoint = ''https://x.example.com'',
          azure_deployment = Some ''gpt-4o'', temperature = 0\<rparr> \<and>
   env_empty_version AZURE_OPENAI_VERSION = Some [] \<and>
   get_llm init env_empty_version =
     Inr \<lparr>api_key = Some ''secret'', api_version = [],
          azure_endpoint = ''https://x.example.com'',
          azure_deployment = Some ''gpt-4o-mini'', temperature = 0\<rparr>"
proof -
  have v1: "env_secondary_only AZURE_OPENAI_VERSION = None"
    by (simp add: env_secondary_only_def)
  have v2: "env_empty_version AZURE_OPENAI_VERSION = Some []"
    by (simp add: env_empty_version_def)
  obtain h1 where g1: "get_llm init env_secondary_only = Inr h1"
    and r1: "h1 = \<lparr>api_key = Some ''secret'', api_version = api_version h1,
          azure_endpoint = ''https://x.example.com'',
          azure_deployment = Some ''gpt-4o'', temperature = 0\<rparr>"
    by (simp add: get_llm_unfold env_secondary_only_def)
  obtain h2 where g2: "get_llm init env_empty_version = Inr h2"
    and r2: "h2 = \<lparr>api_key = Some ''secret'', api_version = api_version h2,
          azure_endpoint = ''https://x.example.com'',
          azure_deployment = Some ''gpt-4o-mini'', temperature = 0\<rparr>"
    by (simp add: get_llm_unfold env_empty_version_def)
  from api_version_default_or_literal [OF g1] v1
  have a1: "api_version h1 = ''2024-02-15-preview''"
    by blast
  from api_version_default_or_literal [OF g2] v2
  have a2: "api_version h2 = []"
    by blast
  from g1 r1 a1 have w1: "get_llm init env_secondary_only =
     Inr \<lparr>api_key = Some ''secret'', api_version = ''2024-02-15-preview'',
          azure_endpoint = ''https://x.example.com'',
          azure_deployment = Some ''gpt-4o'', temperature = 0\<rparr>"
    by simp
  from g2 r2 a2 have w2: "get_llm init env_empty_version =
     Inr \<lparr>api_key = Some ''secret'', api_version = [],
          azure_endpoint = ''https://x.example.com'',
          azure_deployment = Some ''gpt-4o-mini'', temperature = 0\<rparr>"
    by simp
  from v1 w1 v2 w2 show ?thesis
    by (intro conjI)
qed

lemma set_missing_eq: "set (missing env) = required_variables - present_required env"
  by (auto simp: missing_eq required_variables_def present_required_def)

lemma missing_key_empty:
  "missing env_key_empty = [AZURE_OPENAI_KEY, AZURE_OPENAI_DEPLOYMENT_NAME]"
  by (simp add: missing_eq env_key_empty_def truthy_def)

lemma missing_empty_env:
  "missing Map.empty = [AZURE_OPENAI_KEY, AZURE_OPENAI_ENDPOINT, AZURE_OPENAI_DEPLOYMENT_NAME]"
  by (simp add: missing_eq truthy_def)

section \<open>The error raised for missing fields\<close>

text \<open>
  Claim C7. Whenever a required field is missing, the outcome of \<open>get_llm\<close> is one
  \<open>EnvironmentError\<close>: its message is the fixed prefix followed by the names in \<open>missing\<close>
  joined by \<open>", "\<close>, every missing required name occurs in the message, and no handle is
  returned. When all three required fields are missing, the message lists all three
  names.
\<close>

theorem missing_fields_single_error:
  assumes "required_variables - present_required env \<noteq> {}"
  shows "(\<exists>msg. get_llm self env = Inl (EnvironmentError msg) \<and>
            msg = ''Missing required environment variables: '' @ join '', '' (missing env) \<and>
            (\<forall>n \<in> required_variables - present_required env. sublist n msg)) \<and>
         (\<forall>h. get_llm self env \<noteq> Inr h) \<and>
         (present_required env = {} \<longrightarrow>
            get_llm self env =
              Inl (EnvironmentError
                ''Missing required environment variables: AZURE_OPENAI_KEY, AZURE_OPENAI_ENDPOINT, AZURE_OPENAI_DEPLOYMENT_NAME''))"
proof -
  let ?msg = "''Missing required environment variables: '' @ join '', '' (missing env)"
  from assms have ne: "missing env \<noteq> []"
    using set_missing_eq [of env] by auto
  then have g: "get_llm self env = Inl (EnvironmentError ?msg)"
    by (rule get_llm_raises)
  have sub: "sublist n ?msg" if "n \<in> required_variables - present_required env" for n
  proof -
    from that have "n \<in> set (missing env)"
      by (simp only: set_missing_eq)
    then have "sublist n (join '', '' (missing env))"
      by (rule sublist_join)
    then show ?thesis
      by (rule sublist_order.order_trans) (rule sublist_append_leftI)
  qed
  have c1: "\<exists>msg. get_llm self env = Inl (EnvironmentError msg) \<and>
            msg = ?msg \<and> (\<forall>n \<in> required_variables - present_required env. sublist n msg)"
    using g sub by blast
  from g have c2: "\<forall>h. get_llm self env \<noteq> Inr h"
    by simp
  have c3: "present_required env = {} \<longrightarrow>
            get_llm self env =
              Inl (EnvironmentError
                ''Missing required environment variables: AZURE_OPENAI_KEY, AZURE_OPENAI_ENDPOINT, AZURE_OPENAI_DEPLOYMENT_NAME'')"
  proof
    assume "present_required env = {}"
    then have "\<not> truthy (env AZURE_OPENAI_KEY)" "\<not> truthy (env AZURE_OPENAI_ENDPOINT)"
      "\<not> (truthy (env AZURE_OPENAI_DEPLOYMENT_NAME) \<or> truthy (env AZURE_OPENAI_DEPLOYMENT))"
      by (auto simp: present_required_def split: if_splits)
    then have "missing env =
        [AZURE_OPENAI_KEY, AZURE_OPENAI_ENDPOINT, AZURE_OPENAI_DEPLOYMENT_NAME]"
      by (simp add: missing_eq)
    with g show "get_llm self env =
              Inl (EnvironmentError
                ''Missing required environment variables: AZURE_OPENAI_KEY, AZURE_OPENAI_ENDPOINT, AZURE_OPENAI_DEPLOYMENT_NAME'')"
      by simp
  qed
  show ?thesis
    by (rule conjI [OF c1 conjI [OF c2 c3]])
qed

text \<open>
  The theorem at an environment whose key is empty and whose deployment variables are
  not set, and at the empty environment.
\<close>

theorem missing_fields_single_error_witness:
  "required_variables - present_required env_key_empty =
     {AZURE_OPENAI_KEY, AZURE_OPENAI_DEPLOYMENT_NAME} \<and>
   get_llm init env_key_empty =
     Inl (EnvironmentError
       ''Missing required environment variables: AZURE_OPENAI_KEY, AZURE_OPENAI_DEPLOYMENT_NAME'') \<and>
   present_required Map.empty = {} \<and>
   get_llm init Map.empty =
     Inl (EnvironmentError
       ''Missing required environment variables: AZURE_OPENAI_KEY, AZURE_OPENAI_ENDPOINT, AZURE_OPENAI_DEPLOYMENT_NAME'')"
proof -
  have r1: "required_variables - present_required env_key_empty =
     {AZURE_OPENAI_KEY, AZURE_OPENAI_DEPLOYMENT_NAME}"
    by (auto simp: required_variables_def present_required_def env_key_empty_def truthy_def)
  then have n1: "required_variables - present_required env_key_empty \<noteq> {}"
    by simp
  have r2: "present_required Map.empty = {}"
    by (simp add: present_required_def truthy_def)
  then have n2: "required_variables - present_required Map.empty \<noteq> {}"
    by (simp add: required_variables_def)
  from missing_fields_single_error [OF n1, of init]
  have "get_llm init env_key_empty =
     Inl (EnvironmentError
       (''Missing required environment variables: '' @ join '', '' (missing env_key_empty)))"
    by blast
  then have w1: "get_llm init env_key_empty =
     Inl (EnvironmentError
       ''Missing required environment variables: AZURE_OPENAI_KEY, AZURE_OPENAI_DEPLOYMENT_NAME'')"
    by (simp add: missing_key_empty)
  from missing_fields_single_error [OF n2, of init] r2
  have w2: "get_llm init Map.empty =
     Inl (EnvironmentError
       ''Missing required environment variables: AZURE_OPENAI_KEY, AZURE_OPENAI_ENDPOINT, AZURE_OPENAI_DEPLOYMENT_NAME'')"
    by blast
  from r1 w1 r2 w2 show ?thesis
    by (intro conjI)
qed

section \<open>Repeated calls\<close>

text \<open>
  Claim C8. The outcome of \<open>get_llm\<close> is determined by the environment: two calls under
  the same environment, on the same factory or on two factories in any state, either
  both raise the \<open>EnvironmentError\<close> with the same message or both return handles built
  from the same values.
\<close>

theorem get_llm_deterministic:
  "get_llm self env = get_llm self' env \<and>
   ((\<exists>msg. get_llm self env = Inl (EnvironmentError msg) \<and>
           get_llm self' env = Inl (EnvironmentError msg)) \<or>
    (\<exists>h. get_llm self env = Inr h \<and> get_llm self' env = Inr h))"
proof (cases "missing env = []")
  case True
  from get_llm_returns [OF True, of self] get_llm_returns [OF True, of self']
  show ?thesis
    by auto
next
  case False
  from get_llm_raises [OF False, of self] get_llm_raises [OF False, of self']
  show ?thesis
    by simp
qed

section \<open>The constructed handle\<close>

text \<open>
  Claim C9. Whenever \<open>get_llm\<close> succeeds, the handle is built from exactly the four
  resolved values and the fixed temperature: the credential key as read, the API
  version (the variable's value or the default), the endpoint without its trailing
  separators, the deployment identifier (primary value if non-empty, else secondary),
  and temperature 0.0.
\<close>

theorem handle_from_resolved_values:
  assumes "get_llm self env = Inr h"
  shows "\<exists>e. env AZURE_OPENAI_ENDPOINT = Some e \<and>
           h = \<lparr>api_key = env AZURE_OPENAI_KEY,
                api_version = (case env AZURE_OPENAI_VERSION of
                                 None \<Rightarrow> ''2024-02-15-preview'' | Some v \<Rightarrow> v),
                azure_endpoint = rstrip e ''/'',
                azure_deployment =
                  (if truthy (env AZURE_OPENAI_DEPLOYMENT_NAME)
                   then env AZURE_OPENAI_DEPLOYMENT_NAME else env AZURE_OPENAI_DEPLOYMENT),
                temperature = 0\<rparr>"
proof -
  from assms have m: "missing env = []"
    by (rule get_llm_Inr_missing)
  from get_llm_returns [OF m, of self] assms show ?thesis
    by (auto simp: env_api_key_def env_api_version_def getenv_def getenv_default_def
        env_azure_deployment_eq)
qed

text \<open>The theorem at an environment that sets every variable but the secondary one.\<close>

theorem handle_from_resolved_values_witness:
  "get_llm init env_own_version =
     Inr \<lparr>api_key = Some ''secret'', api_version = ''2023-05-15'',
          azure_endpoint = ''https://x.example.com'',
          azure_deployment = Some ''gpt-4o-mini'', temperature = 0\<rparr> \<and>
   env_own_version AZURE_OPENAI_ENDPOINT = Some ''https://x.example.com//'' \<and>
   rstrip ''https://x.example.com//'' ''/'' = ''https://x.example.com''"
proof -
  have e: "env_own_version AZURE_OPENAI_ENDPOINT = Some ''https://x.example.com//''"
    by (simp add: env_own_version_def)
  have r: "rstrip ''https://x.example.com//'' ''/'' = ''https://x.example.com''"
    by (simp add: rstrip_def)
  obtain h where g: "get_llm init env_own_version = Inr h"
    by (simp add: get_llm_unfold env_own_version_def)
  from handle_from_resolved_values [OF g] e r
  have "h = \<lparr>api_key = env_own_version AZURE_OPENAI_KEY,
             api_version = (case env_own_version AZURE_OPENAI_VERSION of
                              None \<Rightarrow> ''2024-02-15-preview'' | Some v \<Rightarrow> v),
             azure_endpoint = ''https://x.example.com'',
             azure_deployment =
               (if truthy (env_own_version AZURE_OPENAI_DEPLOYMENT_NAME)
                then env_own_version AZURE_OPENAI_DEPLOYMENT_NAME
                else env_own_version AZURE_OPENAI_DEPLOYMENT),
             temperature = 0\<rparr>"
    by auto
  then have "h = \<lparr>api_key = Some ''secret'', api_version = ''2023-05-15'',
          azure_endpoint = ''https://x.example.com'',
          azure_deployment = Some ''gpt-4o-mini'', temperature = 0\<rparr>"
    by (simp add: env_own_version_def truthy_def)
  with g e r show ?thesis
    by simp
qed

section \<open>The order of the reported names\<close>

text \<open>
  Claim C10. Whenever required fields are missing, the error message lists the names
  in \<open>missing\<close>, which follow the fixed order \<open>AZURE_OPENAI_KEY\<close>, \<open>AZURE_OPENAI_ENDPOINT\<close>,
  \<open>AZURE_OPENAI_DEPLOYMENT_NAME\<close>, each at most once. A missing deployment identifier is
  reported under the primary name \<open>AZURE_OPENAI_DEPLOYMENT_NAME\<close>; the secondary name
  \<open>AZURE_OPENAI_DEPLOYMENT\<close> is never an entry of the list.
\<close>

theorem missing_names_fixed_order:
  assumes "missing env \<noteq> []"
  shows "get_llm self env =
           Inl (EnvironmentError
                  (''Missing required environment variables: '' @ join '', '' (missing env))) \<and>
         subseq (missing env)
           [AZURE_OPENAI_KEY, AZURE_OPENAI_ENDPOINT, AZURE_OPENAI_DEPLOYMENT_NAME] \<and>
         AZURE_OPENAI_DEPLOYMENT \<notin> set (missing env) \<and>
         (AZURE_OPENAI_DEPLOYMENT_NAME \<in> set (missing env) \<longleftrightarrow>
            \<not> truthy (env AZURE_OPENAI_DEPLOYMENT_NAME) \<and> \<not> truthy (env AZURE_OPENAI_DEPLOYMENT))"
proof -
  from assms have c1: "get_llm self env =
           Inl (EnvironmentError
                  (''Missing required environment variables: '' @ join '', '' (missing env)))"
    by (rule get_llm_raises)
  have c2: "subseq (missing env)
           [AZURE_OPENAI_KEY, AZURE_OPENAI_ENDPOINT, AZURE_OPENAI_DEPLOYMENT_NAME]"
    by (simp add: missing_eq)
  have c3: "AZURE_OPENAI_DEPLOYMENT \<notin> set (missing env)"
    by (simp add: missing_eq)
  have c4: "AZURE_OPENAI_DEPLOYMENT_NAME \<in> set (missing env) \<longleftrightarrow>
            \<not> truthy (env AZURE_OPENAI_DEPLOYMENT_NAME) \<and> \<not> truthy (env AZURE_OPENAI_DEPLOYMENT)"
    by (simp add: missing_eq)
  show ?thesis
    by (rule conjI [OF c1 conjI [OF c2 conjI [OF c3 c4]]])
qed

text \<open>
  The theorem at an environment whose endpoint is set, whose key is empty and whose
  deployment variables are not set: the key comes first, the deployment identifier
  second, under its primary name.
\<close>

theorem missing_names_fixed_order_witness:
  "missing env_key_empty = [AZURE_OPENAI_KEY, AZURE_OPENAI_DEPLOYMENT_NAME] \<and>
   get_llm (init\<lparr>llm := None\<rparr>) env_key_empty =
     Inl (EnvironmentError
       ''Missing required environment variables: AZURE_OPENAI_KEY, AZURE_OPENAI_DEPLOYMENT_NAME'') \<and>
   AZURE_OPENAI_DEPLOYMENT \<notin> set (missing env_key_empty)"
proof -
  have n: "missing env_key_empty \<noteq> []"
    by (simp add: missing_key_empty)
  note th = missing_names_fixed_order [OF n, of "init\<lparr>llm := None\<rparr>"]
  from th have "get_llm (init\<lparr>llm := None\<rparr>) env_key_empty =
     Inl (EnvironmentError
       (''Missing required environment variables: '' @ join '', '' (missing env_key_empty)))"
    by (rule conjunct1)
  then have w: "get_llm (init\<lparr>llm := None\<rparr>) env_key_empty =
     Inl (EnvironmentError
       ''Missing required environment variables: AZURE_OPENAI_KEY, AZURE_OPENAI_DEPLOYMENT_NAME'')"
    by (simp add: missing_key_empty)
  from th have s: "AZURE_OPENAI_DEPLOYMENT \<notin> set (missing env_key_empty)"
    by (rule conjunct2 [THEN conjunct2, THEN conjunct1])
  from missing_key_empty w s show ?thesis
    by (intro conjI)
qed

end
